theory Spec2Isabelle
  imports Main
begin

section \<open>Python values, exceptions and the primitives the plugin uses\<close>

text \<open>
  The plugin \<^verbatim>\<open>midi_snapshot_plugin.py\<close> reads a YAML configuration and the JSON
  snapshot inventory of the MOD host; both arrive as dynamically typed Python values.
  \<open>pyval\<close> holds the values that \<^verbatim>\<open>yaml.safe_load\<close> and a JSON decoder
  produce (floats apart). A dictionary is an association list with distinct keys, in
  insertion order. Characters are code points below 256.
\<close>

datatype pyval =
    PNone
  | PBool bool
  | PInt int
  | PStr string
  | PList "pyval list"
  | PDict "(pyval \<times> pyval) list"

datatype exn =
    AttributeError
  | ValueError
  | TypeError
  | IndexError
  | FileNotFoundError
  | OtherError string

text \<open>Truth value of a Python object, as \<^verbatim>\<open>if not action\<close> and \<^verbatim>\<open>if self.verbose\<close> read it.\<close>

fun py_bool :: "pyval \<Rightarrow> bool" where
  "py_bool PNone = False"
| "py_bool (PBool b) = b"
| "py_bool (PInt i) = (i \<noteq> 0)"
| "py_bool (PStr s) = (s \<noteq> [])"
| "py_bool (PList xs) = (xs \<noteq> [])"
| "py_bool (PDict kvs) = (kvs \<noteq> [])"

text \<open>
  \<^verbatim>\<open>d.get(k, default)\<close> with a string key. Only a dictionary has the method: on any
  other value the attribute access raises AttributeError.
\<close>

fun py_get :: "pyval \<Rightarrow> string \<Rightarrow> pyval \<Rightarrow> exn + pyval" where
  "py_get (PDict kvs) k dflt = Inr (case map_of kvs (PStr k) of None \<Rightarrow> dflt | Some v \<Rightarrow> v)"
| "py_get PNone k dflt = Inl AttributeError"
| "py_get (PBool b) k dflt = Inl AttributeError"
| "py_get (PInt i) k dflt = Inl AttributeError"
| "py_get (PStr s) k dflt = Inl AttributeError"
| "py_get (PList xs) k dflt = Inl AttributeError"

subsection \<open>Formatting an integer, as an f-string does\<close>

definition digit_char :: "nat \<Rightarrow> char" where
  "digit_char d = ''0123456789'' ! d"

fun str_nat :: "nat \<Rightarrow> string" where
  "str_nat n = (if n < 10 then [digit_char n] else str_nat (n div 10) @ [digit_char (n mod 10)])"

declare str_nat.simps [simp del]

definition str_int :: "int \<Rightarrow> string" where
  "str_int i = (if i < 0 then CHR ''-'' # str_nat (nat (- i)) else str_nat (nat i))"

subsection \<open>\<^verbatim>\<open>str.startswith\<close>, \<^verbatim>\<open>str.split\<close>, list indexing and \<^verbatim>\<open>int\<close>\<close>

definition startswith :: "string \<Rightarrow> string \<Rightarrow> bool" where
  "startswith s p = (take (length p) s = p)"

text \<open>\<^verbatim>\<open>s.split(sep)\<close> for a one-character separator; the empty string gives one empty piece.\<close>

fun split :: "string \<Rightarrow> char \<Rightarrow> string list" where
  "split [] sep = [[]]"
| "split (c # cs) sep =
     (if c = sep then [] # split cs sep
      else (case split cs sep of
              [] \<Rightarrow> [[c]]
            | p # ps \<Rightarrow> (c # p) # ps))"

text \<open>\<^verbatim>\<open>xs[i]\<close> for a non-negative literal index: IndexError beyond the end.\<close>

definition py_index :: "'a list \<Rightarrow> nat \<Rightarrow> exn + 'a" where
  "py_index xs i = (if i < length xs then Inr (xs ! i) else Inl IndexError)"

text \<open>
  \<^verbatim>\<open>int(s)\<close> on a string, base 10: surrounding white space is dropped, one sign is
  allowed, then decimal digits, where a single underscore may stand between two digits.
  Anything else raises ValueError (here \<open>None\<close>). The white space is that of
  \<^verbatim>\<open>str.isspace\<close> below code point 256. The bound that newer interpreters put on the
  number of digits (4300 unless reconfigured) is left out.
\<close>

definition is_space :: "char \<Rightarrow> bool" where
  "is_space c = (of_char c \<in> {9, 10, 11, 12, 13, 28, 29, 30, 31, 32, 133, 160 :: nat})"

definition is_digit :: "char \<Rightarrow> bool" where
  "is_digit c = (48 \<le> (of_char c :: nat) \<and> (of_char c :: nat) \<le> 57)"

definition digit_val :: "char \<Rightarrow> nat" where
  "digit_val c = of_char c - 48"

fun parse_digits :: "nat \<Rightarrow> string \<Rightarrow> nat option" where
  "parse_digits acc [] = Some acc"
| "parse_digits acc [c] = (if is_digit c then Some (10 * acc + digit_val c) else None)"
| "parse_digits acc (c # d # ds) =
     (if is_digit c then parse_digits (10 * acc + digit_val c) (d # ds)
      else if c = CHR ''_'' \<and> is_digit d then parse_digits (10 * acc + digit_val d) ds
      else None)"

definition strip :: "string \<Rightarrow> string" where
  "strip s = rev (dropWhile is_space (rev (dropWhile is_space s)))"

definition parse_unsigned :: "string \<Rightarrow> nat option" where
  "parse_unsigned s =
     (case s of
        [] \<Rightarrow> None
      | c # cs \<Rightarrow> if is_digit c then parse_digits (digit_val c) cs else None)"

definition int_of_str :: "string \<Rightarrow> int option" where
  "int_of_str s =
     (case strip s of
        [] \<Rightarrow> None
      | c # cs \<Rightarrow>
          if c = CHR ''-'' then map_option (\<lambda>n. - int n) (parse_unsigned cs)
          else if c = CHR ''+'' then map_option int (parse_unsigned cs)
          else map_option int (parse_unsigned (c # cs)))"

text \<open>\<^verbatim>\<open>int(x)\<close> on any value: an int is itself, a bool is 0 or 1, a string is parsed.\<close>

fun py_int :: "pyval \<Rightarrow> exn + int" where
  "py_int (PInt i) = Inr i"
| "py_int (PBool b) = Inr (if b then 1 else 0)"
| "py_int (PStr s) = (case int_of_str s of None \<Rightarrow> Inl ValueError | Some i \<Rightarrow> Inr i)"
| "py_int PNone = Inl TypeError"
| "py_int (PList xs) = Inl TypeError"
| "py_int (PDict kvs) = Inl TypeError"

section \<open>The plugin's state\<close>

text \<open>
  A decoded MIDI message as mido delivers it: \<open>msg_type\<close> is the attribute
  \<^verbatim>\<open>msg.type\<close>; the source reads \<open>control\<close> only on a control change and
  \<open>program\<close> only on a program change.
\<close>

record midi_msg =
  msg_type :: string
  channel :: int
  control :: int
  program :: int

datatype handler_call =
    Preset_incr_and_change
  | Preset_decr_and_change
  | Preset_set_and_change int

datatype level = DEBUG | INFO | WARNING | ERROR

text \<open>One constructor for each logging call of the source, with the values it interpolates.\<close>

datatype log_msg =
    Plugin_loaded
  | No_config_file
  | Ports_detected "string list"
  | Listen_start string
  | Monitor_started
  | Periodic_scan "string list"
  | New_port string
  | Port_disconnected string
  | Listening_on string
  | Port_error string exn
  | Listen_stop string
  | Action_failed pyval exn
  | Loading_snapshot int
  | Next_snapshot pyval string
  | Previous_snapshot pyval string

datatype target =
    Listen_to_all_midi_ports
  | Monitor_midi_devices
  | Listen_to_port string

text \<open>
  The fields of \<^verbatim>\<open>MidiSnapshotPlugin\<close>, and with them what the plugin touches outside
  itself: \<open>handler\<close> tells whether a call of the preset handler raises, \<open>handler_calls\<close>
  and \<open>modapi_calls\<close> are the calls made so far, \<open>threads\<close> is the table of the threads
  started (a thread is its index; the flag is \<^verbatim>\<open>is_alive()\<close>) and \<open>log_records\<close> is
  what the logging module has emitted.
\<close>

record state =
  handler :: "handler_call \<Rightarrow> exn option"
  handler_calls :: "handler_call list"
  modapi_calls :: "int list"
  config :: pyval
  snapshot_map :: pyval
  verbose :: pyval
  running :: bool
  active_ports :: "string \<rightharpoonup> nat"
  threads :: "(target \<times> bool) list"
  log_records :: "(level \<times> log_msg) list"

text \<open>The root logger is configured at level INFO: a debug record is dropped.\<close>

definition logging_info :: "log_msg \<Rightarrow> state \<Rightarrow> state" where
  "logging_info m st = st\<lparr>log_records := log_records st @ [(INFO, m)]\<rparr>"

definition logging_warning :: "log_msg \<Rightarrow> state \<Rightarrow> state" where
  "logging_warning m st = st\<lparr>log_records := log_records st @ [(WARNING, m)]\<rparr>"

definition logging_error :: "log_msg \<Rightarrow> state \<Rightarrow> state" where
  "logging_error m st = st\<lparr>log_records := log_records st @ [(ERROR, m)]\<rparr>"

definition logging_debug :: "log_msg \<Rightarrow> state \<Rightarrow> state" where
  "logging_debug m st = st"

section \<open>Message handling\<close>

definition fmt_key :: "int \<Rightarrow> int \<Rightarrow> string" where
  "fmt_key chan n = str_int chan @ '':'' @ str_int n"

text \<open>\<^verbatim>\<open>self.snapshot_map.get(section, {}).get(key)\<close>\<close>

definition lookup_action :: "pyval \<Rightarrow> string \<Rightarrow> string \<Rightarrow> exn + pyval" where
  "lookup_action smap section key =
     (case py_get smap section (PDict []) of
        Inl e \<Rightarrow> Inl e
      | Inr d \<Rightarrow> py_get d key PNone)"

definition call_handler :: "handler_call \<Rightarrow> state \<Rightarrow> exn option \<times> state" where
  "call_handler c st = (handler st c, st\<lparr>handler_calls := handler_calls st @ [c]\<rparr>)"

text \<open>The body of the \<^verbatim>\<open>try\<close> of \<^verbatim>\<open>handle_midi_message\<close>: the exception raised, if any.\<close>

definition try_action :: "pyval \<Rightarrow> state \<Rightarrow> exn option \<times> state" where
  "try_action action st =
     (if action = PStr ''next'' then call_handler Preset_incr_and_change st
      else if action = PStr ''previous'' then call_handler Preset_decr_and_change st
      else (case action of
              PStr a \<Rightarrow>
                if startswith a ''load:'' then
                  (case py_index (split a CHR '':'') 1 of
                     Inl e \<Rightarrow> (Some e, st)
                   | Inr s \<Rightarrow>
                       (case py_int (PStr s) of
                          Inl e \<Rightarrow> (Some e, st)
                        | Inr index \<Rightarrow> call_handler (Preset_set_and_change index) st))
                else (None, st)
            | _ \<Rightarrow> (Some AttributeError, st)))"

text \<open>
  The first \<^verbatim>\<open>if\<close> of \<^verbatim>\<open>handle_midi_message\<close>: what \<^verbatim>\<open>action\<close> is bound to,
  or the exception of the lookup; \<open>None\<close> is the \<^verbatim>\<open>else: return\<close>.
\<close>

definition bound_action :: "midi_msg \<Rightarrow> state \<Rightarrow> (exn + pyval) option" where
  "bound_action msg st =
     (if msg_type msg = ''control_change'' then
        Some (lookup_action (snapshot_map st) ''cc'' (fmt_key (channel msg + 1) (control msg)))
      else if msg_type msg = ''program_change'' then
        Some (lookup_action (snapshot_map st) ''pc'' (fmt_key (channel msg + 1) (program msg)))
      else None)"

text \<open>
  The result is the exception that leaves \<^verbatim>\<open>handle_midi_message\<close>, if any, and the
  state. An exception of the \<^verbatim>\<open>try\<close> body is caught and logged.
\<close>

definition handle_midi_message :: "midi_msg \<Rightarrow> state \<Rightarrow> exn option \<times> state" where
  "handle_midi_message msg st =
     (case bound_action msg st of
        None \<Rightarrow> (None, st)
      | Some (Inl e) \<Rightarrow> (Some e, st)
      | Some (Inr action) \<Rightarrow>
          if \<not> py_bool action then (None, st)
          else (case try_action action st of
                  (None, st') \<Rightarrow> (None, st')
                | (Some e, st') \<Rightarrow> (None, logging_error (Action_failed action e) st')))"

section \<open>Snapshot navigation\<close>

definition load_snapshot :: "int \<Rightarrow> state \<Rightarrow> state" where
  "load_snapshot index st =
     (let st1 = logging_info (Loading_snapshot index) st
      in st1\<lparr>modapi_calls := modapi_calls st1 @ [index]\<rparr>)"

text \<open>\<^verbatim>\<open>names.index(x)\<close>, called only when \<^verbatim>\<open>x in names\<close>: the first position of \<open>x\<close>.\<close>

fun index :: "'a list \<Rightarrow> 'a \<Rightarrow> nat" where
  "index [] x = 0"
| "index (y # ys) x = (if y = x then 0 else Suc (index ys x))"

text \<open>
  \<open>current_name\<close> and \<open>snapshot_list\<close> are what \<^verbatim>\<open>modapi.get_current_snapshot_name()\<close>
  and \<^verbatim>\<open>modapi.get_snapshot_list()\<close> returned. \<open>names\<close> and \<open>keys\<close> have the same
  length and the index computed is below it, so \<open>!\<close> reads inside both lists.
\<close>

definition load_next_snapshot :: "string \<Rightarrow> (pyval \<times> string) list \<Rightarrow> state \<Rightarrow> exn option \<times> state" where
  "load_next_snapshot current_name snapshot_list st =
     (let names = map snd snapshot_list;
          keys = map fst snapshot_list
      in if current_name \<in> set names then
           (let idx = index names current_name;
                next_idx = (idx + 1) mod length names;
                st1 = logging_info (Next_snapshot (keys ! next_idx) (names ! next_idx)) st
            in case py_int (keys ! next_idx) of
                 Inl e \<Rightarrow> (Some e, st1)
               | Inr i \<Rightarrow> (None, load_snapshot i st1))
         else (None, st))"

definition load_previous_snapshot :: "string \<Rightarrow> (pyval \<times> string) list \<Rightarrow> state \<Rightarrow> exn option \<times> state" where
  "load_previous_snapshot current_name snapshot_list st =
     (let names = map snd snapshot_list;
          keys = map fst snapshot_list
      in if current_name \<in> set names then
           (let idx = index names current_name;
                prev_idx = nat ((int idx - 1 + int (length names)) mod int (length names));
                st1 = logging_info (Previous_snapshot (keys ! prev_idx) (names ! prev_idx)) st
            in case py_int (keys ! prev_idx) of
                 Inl e \<Rightarrow> (Some e, st1)
               | Inr i \<Rightarrow> (None, load_snapshot i st1))
         else (None, st))"

section \<open>Threads and the listener registry\<close>

definition thread_start :: "target \<Rightarrow> state \<Rightarrow> nat \<times> state" where
  "thread_start tgt st = (length (threads st), st\<lparr>threads := threads st @ [(tgt, True)]\<rparr>)"

definition is_alive :: "nat \<Rightarrow> state \<Rightarrow> bool" where
  "is_alive t st = (t < length (threads st) \<and> snd (threads st ! t))"

text \<open>A thread whose target has returned: \<^verbatim>\<open>is_alive()\<close> is false from then on.\<close>

definition thread_exit :: "nat \<Rightarrow> state \<Rightarrow> state" where
  "thread_exit t st =
     (if t < length (threads st)
      then st\<lparr>threads := (threads st)[t := (fst (threads st ! t), False)]\<rparr>
      else st)"

definition start_listening_to_port :: "string \<Rightarrow> state \<Rightarrow> state" where
  "start_listening_to_port port_name st =
     (if (case active_ports st port_name of None \<Rightarrow> False | Some thread \<Rightarrow> is_alive thread st)
      then st
      else (let st1 = st\<lparr>active_ports := (active_ports st)(port_name := None)\<rparr>;
                (thread, st2) = thread_start (Listen_to_port port_name) st1;
                st3 = st2\<lparr>active_ports := (active_ports st2)(port_name \<mapsto> thread)\<rparr>
            in logging_info (Listen_start port_name) st3))"

text \<open>
  A Python set is a list without duplicates here; a \<^verbatim>\<open>for\<close> over it runs in the
  list's order (Python leaves the order open).
\<close>

definition listen_to_all_midi_ports :: "string list \<Rightarrow> state \<Rightarrow> state" where
  "listen_to_all_midi_ports get_input_names st =
     (let input_names = remdups get_input_names;
          st1 = (if py_bool (verbose st) \<or> input_names = []
                 then logging_info (Ports_detected input_names) st else st)
      in fold start_listening_to_port input_names st1)"

definition pop_port :: "string \<Rightarrow> state \<Rightarrow> state" where
  "pop_port port st = st\<lparr>active_ports := (active_ports st)(port := None)\<rparr>"

text \<open>
  One pass of the \<^verbatim>\<open>while self.running\<close> loop of \<^verbatim>\<open>monitor_midi_devices\<close>:
  \<open>get_input_names\<close> is what the enumeration returned in this pass; the pair is
  \<open>previous_ports\<close> and the state. No listener thread exits during the pass.
\<close>

definition monitor_cycle :: "string list \<Rightarrow> string list \<times> state \<Rightarrow> string list \<times> state" where
  "monitor_cycle get_input_names ps =
     (let previous_ports = fst ps;
          st = snd ps;
          current_ports = remdups get_input_names;
          st1 = (if py_bool (verbose st) then logging_debug (Periodic_scan current_ports) st else st);
          new_ports = filter (\<lambda>p. p \<notin> set previous_ports) current_ports;
          removed_ports = filter (\<lambda>p. p \<notin> set current_ports) previous_ports;
          st2 = fold (\<lambda>port s. start_listening_to_port port (logging_info (New_port port) s))
                  new_ports st1;
          st3 = fold (\<lambda>port s. pop_port port (logging_info (Port_disconnected port) s))
                  removed_ports st2
      in (current_ports, st3))"

text \<open>The loop over the enumerations of a finite run, one list per pass.\<close>

fun monitor_loop :: "string list list \<Rightarrow> string list \<times> state \<Rightarrow> string list \<times> state" where
  "monitor_loop [] ps = ps"
| "monitor_loop (names # rest) ps =
     (if running (snd ps) then monitor_loop rest (monitor_cycle names ps) else ps)"

definition monitor_midi_devices :: "string list \<Rightarrow> string list list \<Rightarrow> state \<Rightarrow> string list \<times> state" where
  "monitor_midi_devices first scans st =
     monitor_loop scans (remdups first, logging_info Monitor_started st)"

section \<open>The listener of one port\<close>

text \<open>
  What \<^verbatim>\<open>open_input(port_name)\<close> and the iteration over the port do in a run that
  ends: the open fails, or the port delivers messages and then the iteration raises
  (\<open>Some e\<close>) or stops (\<open>None\<close>).
\<close>

datatype input = Open_failed exn | Opened "midi_msg list" "exn option"

fun read_loop :: "midi_msg list \<Rightarrow> exn option \<Rightarrow> state \<Rightarrow> exn option \<times> state" where
  "read_loop [] err st = (err, st)"
| "read_loop (msg # msgs) err st =
     (if \<not> running st then (None, st)
      else (case handle_midi_message msg st of
              (Some e, st') \<Rightarrow> (Some e, st')
            | (None, st') \<Rightarrow> read_loop msgs err st'))"

definition listen_to_port :: "string \<Rightarrow> input \<Rightarrow> state \<Rightarrow> state" where
  "listen_to_port port_name inp st =
     (let (raised, st1) =
            (case inp of
               Open_failed e \<Rightarrow> (Some e, st)
             | Opened msgs err \<Rightarrow> read_loop msgs err (logging_info (Listening_on port_name) st));
          st2 = (case raised of
                   Some e \<Rightarrow> logging_warning (Port_error port_name e) st1
                 | None \<Rightarrow> st1)
      in logging_info (Listen_stop port_name) st2)"

text \<open>The run of listener thread \<open>t\<close>: its target \<^verbatim>\<open>listen_to_port\<close>, then the thread is dead.\<close>

definition listener_thread :: "nat \<Rightarrow> string \<Rightarrow> input \<Rightarrow> state \<Rightarrow> state" where
  "listener_thread t port_name inp st = thread_exit t (listen_to_port port_name inp st)"

section \<open>Construction and start\<close>

text \<open>
  \<open>file\<close> is the outcome of opening and parsing \<^verbatim>\<open>midi_snapshot_plugin.yml\<close>: the
  value loaded, or the exception raised. Only FileNotFoundError is caught. The second
  component is what \<^verbatim>\<open>load_config\<close> logs.
\<close>

definition load_config :: "exn + pyval \<Rightarrow> (exn + pyval) \<times> (level \<times> log_msg) list" where
  "load_config file =
     (case file of
        Inr v \<Rightarrow> (Inr v, [])
      | Inl e \<Rightarrow>
          if e = FileNotFoundError then (Inr (PDict []), [(WARNING, No_config_file)])
          else (Inl e, []))"

definition init :: "(handler_call \<Rightarrow> exn option) \<Rightarrow> exn + pyval \<Rightarrow> exn + state" where
  "init h file =
     (case load_config file of
        (Inl e, lg) \<Rightarrow> Inl e
      | (Inr cfg, lg) \<Rightarrow>
          (case py_get cfg ''midi'' (PDict []) of
             Inl e \<Rightarrow> Inl e
           | Inr midi \<Rightarrow>
               (case py_get midi ''snapshot'' (PDict []) of
                  Inl e \<Rightarrow> Inl e
                | Inr smap \<Rightarrow>
                    (case py_get cfg ''verbose'' (PBool False) of
                       Inl e \<Rightarrow> Inl e
                     | Inr v \<Rightarrow>
                         Inr \<lparr>handler = h, handler_calls = [], modapi_calls = [],
                              config = cfg, snapshot_map = smap, verbose = v,
                              running = False, active_ports = Map.empty,
                              threads = [], log_records = lg\<rparr>))))"

definition start :: "state \<Rightarrow> state" where
  "start st =
     (let st1 = st\<lparr>running := True\<rparr>;
          (t1, st2) = thread_start Listen_to_all_midi_ports st1;
          (t2, st3) = thread_start Monitor_midi_devices st2
      in st3)"

definition register_plugin :: "(handler_call \<Rightarrow> exn option) \<Rightarrow> exn + pyval \<Rightarrow> exn + state" where
  "register_plugin h file =
     (case init h file of
        Inl e \<Rightarrow> Inl e
      | Inr plugin_instance \<Rightarrow> Inr (logging_info Plugin_loaded (start plugin_instance)))"

section \<open>Predicates used in the statements\<close>

text \<open>The test \<^verbatim>\<open>thread and thread.is_alive()\<close> on the entry of a port.\<close>

definition live_entry :: "state \<Rightarrow> string \<Rightarrow> bool" where
  "live_entry st port_name =
     (case active_ports st port_name of None \<Rightarrow> False | Some thread \<Rightarrow> is_alive thread st)"


section \<open>Inputs used in the examples\<close>

text \<open>
  The plugin as \<^verbatim>\<open>register_plugin\<close> leaves it for a configuration whose
  \<^verbatim>\<open>midi.snapshot\<close> section is \<open>smap\<close>, with a handler that never raises (the log
  left empty).
\<close>

definition example_plugin :: "pyval \<Rightarrow> state" where
  "example_plugin smap =
     \<lparr>handler = (\<lambda>c. None), handler_calls = [], modapi_calls = [],
      config = PDict [(PStr ''midi'', PDict [(PStr ''snapshot'', smap)])],
      snapshot_map = smap, verbose = PBool False, running = True,
      active_ports = Map.empty,
      threads = [(Listen_to_all_midi_ports, True), (Monitor_midi_devices, True)],
      log_records = []\<rparr>"

definition cc_msg :: "int \<Rightarrow> int \<Rightarrow> midi_msg" where
  "cc_msg ch n = \<lparr>msg_type = ''control_change'', channel = ch, control = n, program = 0\<rparr>"

definition other_msg :: "string \<Rightarrow> midi_msg" where
  "other_msg ty = \<lparr>msg_type = ty, channel = 0, control = 0, program = 0\<rparr>"

definition pc_msg :: "int \<Rightarrow> int \<Rightarrow> midi_msg" where
  "pc_msg ch n = \<lparr>msg_type = ''program_change'', channel = ch, control = 0, program = n\<rparr>"

definition example_map :: pyval where
  "example_map =
     PDict [(PStr ''cc'', PDict [(PStr ''3:10'', PStr ''load:5''),
                                 (PStr ''1:20'', PStr ''load:abc''),
                                 (PStr ''1:21'', PStr ''stop'')]),
            (PStr ''pc'', PDict [(PStr ''1:0'', PStr ''next'')])]"

definition example_inventory :: "(pyval \<times> string) list" where
  "example_inventory = [(PInt 0, ''A''), (PInt 1, ''B''), (PInt 2, ''C'')]"

text \<open>
  The plugin after the initial scan found the port \<^verbatim>\<open>dev\<close> (its listener is thread 2),
  and the same after that listener failed to open the port and exited.
\<close>

definition example_registered :: state where
  "example_registered = listen_to_all_midi_ports [''dev''] (example_plugin (PDict []))"

definition example_dead :: state where
  "example_dead = listener_thread 2 ''dev'' (Open_failed (OtherError ''unknown port'')) example_registered"

section \<open>Facts about the primitives\<close>

lemma init_example:
  "map_sum id start
     (init (\<lambda>c. None) (Inr (PDict [(PStr ''midi'', PDict [(PStr ''snapshot'', smap)])])))
     = Inr (example_plugin smap)"
  by (simp add: init_def load_config_def start_def thread_start_def example_plugin_def)

lemma digit_cases: "d < 10 \<Longrightarrow> d = 0 \<or> d = 1 \<or> d = 2 \<or> d = 3 \<or> d = 4 \<or> d = 5 \<or> d = 6 \<or> d = 7 \<or> d = 8 \<or> d = (9::nat)"
  by arith

lemma digit_val_digit_char: "d < 10 \<Longrightarrow> digit_val (digit_char d) = d"
  using digit_cases [of d] by (auto simp: digit_val_def digit_char_def)

lemma is_digit_digit_char: "d < 10 \<Longrightarrow> is_digit (digit_char d)"
  using digit_cases [of d] by (auto simp: is_digit_def digit_char_def)

lemma str_nat_inverse: "foldl (\<lambda>a c. 10 * a + digit_val c) 0 (str_nat n) = n"
proof (induction n rule: str_nat.induct)
  case (1 n)
  show ?case
  proof (cases "n < 10")
    case True
    then show ?thesis
      by (subst str_nat.simps) (simp add: digit_val_digit_char)
  next
    case False
    with 1 show ?thesis
      by (subst str_nat.simps) (simp add: digit_val_digit_char)
  qed
qed

lemma str_nat_inj: "str_nat m = str_nat n \<Longrightarrow> m = n"
  by (metis str_nat_inverse)

lemma str_nat_digits: "c \<in> set (str_nat n) \<Longrightarrow> is_digit c"
proof (induction n rule: str_nat.induct)
  case (1 n)
  show ?case
  proof (cases "n < 10")
    case True
    with "1.prems" show ?thesis
      by (subst (asm) str_nat.simps) (simp add: is_digit_digit_char)
  next
    case False
    with 1 show ?thesis
      by (subst (asm) (2) str_nat.simps) (auto simp: is_digit_digit_char)
  qed
qed

lemma str_nat_not_Nil: "str_nat n \<noteq> []"
  by (subst str_nat.simps) simp

lemma str_int_inj: "str_int i = str_int j \<Longrightarrow> i = j"
proof -
  assume eq: "str_int i = str_int j"
  have minus: "\<not> is_digit CHR ''-''" by (simp add: is_digit_def)
  have no_minus: "CHR ''-'' # xs \<noteq> str_nat n" for xs n
  proof
    assume "CHR ''-'' # xs = str_nat n"
    then have "CHR ''-'' \<in> set (str_nat n)" by (metis list.set_intros(1))
    with minus show False using str_nat_digits by blast
  qed
  show ?thesis
  proof (cases "i < 0")
    case True
    show ?thesis
    proof (cases "j < 0")
      case True
      with \<open>i < 0\<close> eq have "nat (- i) = nat (- j)"
        by (simp add: str_int_def str_nat_inj)
      with \<open>i < 0\<close> True show ?thesis by simp
    next
      case False
      with \<open>i < 0\<close> eq no_minus show ?thesis by (simp add: str_int_def)
    qed
  next
    case False
    show ?thesis
    proof (cases "j < 0")
      case True
      with \<open>\<not> i < 0\<close> eq no_minus [of "str_nat (nat (- j))" "nat i"] show ?thesis
        by (simp add: str_int_def)
    next
      case False
      with \<open>\<not> i < 0\<close> eq have "nat i = nat j"
        by (simp add: str_int_def str_nat_inj)
      with \<open>\<not> i < 0\<close> False show ?thesis by simp
    qed
  qed
qed

lemma str_int_no_colon: "CHR '':'' \<notin> set (str_int i)"
proof
  assume "CHR '':'' \<in> set (str_int i)"
  then have "CHR '':'' \<in> set (str_nat (nat (- i))) \<or> CHR '':'' \<in> set (str_nat (nat i))"
    by (auto simp: str_int_def split: if_splits)
  then have "is_digit CHR '':''" using str_nat_digits by blast
  then show False by (simp add: is_digit_def)
qed

lemma fmt_key_inj: "fmt_key a b = fmt_key c d \<longleftrightarrow> a = c \<and> b = d"
proof
  assume "fmt_key a b = fmt_key c d"
  then have "str_int a @ CHR '':'' # str_int b = str_int c @ CHR '':'' # str_int d"
    by (simp add: fmt_key_def)
  then have "str_int a = str_int c \<and> str_int b = str_int d"
    using append_Cons_eq_iff [OF str_int_no_colon str_int_no_colon] by blast
  then show "a = c \<and> b = d" by (simp add: str_int_inj)
qed simp


lemma fmt_key_3_10: "fmt_key 3 10 = ''3:10''"
  by (simp add: fmt_key_def str_int_def str_nat.simps digit_char_def)

lemma try_action_load5:
  "try_action (PStr ''load:5'') st = call_handler (Preset_set_and_change 5) st"
  by (simp add: try_action_def startswith_def py_index_def int_of_str_def strip_def
      is_space_def parse_unsigned_def is_digit_def digit_val_def)

lemma lookup_single:
  "lookup_action (PDict [(PStr sec, PDict [(PStr k, v)])]) sec key = Inr (if key = k then v else PNone)"
  by (simp add: lookup_action_def)

lemmas eval_simps = fmt_key_def str_int_def str_nat.simps digit_char_def lookup_action_def
  bound_action_def example_plugin_def example_map_def cc_msg_def pc_msg_def other_msg_def



lemma index_first:
  "k < length xs \<Longrightarrow> xs ! k = x \<Longrightarrow> (\<And>j. j < k \<Longrightarrow> xs ! j \<noteq> x) \<Longrightarrow> index xs x = k"
proof (induction xs arbitrary: k)
  case Nil
  then show ?case by simp
next
  case (Cons y ys)
  show ?case
  proof (cases k)
    case 0
    with Cons.prems show ?thesis by simp
  next
    case (Suc k')
    with Cons.prems(3) [of 0] have "y \<noteq> x" by simp
    moreover have "index ys x = k'"
    proof (rule Cons.IH)
      show "k' < length ys" using Cons.prems(1) Suc by simp
      show "ys ! k' = x" using Cons.prems(2) Suc by simp
      show "ys ! j \<noteq> x" if "j < k'" for j
        using Cons.prems(3) [of "Suc j"] that Suc by simp
    qed
    ultimately show ?thesis using Suc by simp
  qed
qed

lemma index_less: "x \<in> set xs \<Longrightarrow> index xs x < length xs"
  by (induction xs) auto

lemma nat_mod_less: "0 < n \<Longrightarrow> nat (a mod int n) < n"
  by (simp add: nat_less_iff)

lemma snapshot_index_in_range:
  assumes "current_name \<in> set (map snd snapshot_list)"
  shows "(index (map snd snapshot_list) current_name + 1) mod length (map snd snapshot_list)
           < length (map fst snapshot_list)"
    and "nat ((int (index (map snd snapshot_list) current_name) - 1
           + int (length (map snd snapshot_list))) mod int (length (map snd snapshot_list)))
           < length (map fst snapshot_list)"
proof -
  from assms have pos: "0 < length snapshot_list" by (cases snapshot_list) auto
  then show "(index (map snd snapshot_list) current_name + 1) mod length (map snd snapshot_list)
           < length (map fst snapshot_list)" by simp
  show "nat ((int (index (map snd snapshot_list) current_name) - 1
           + int (length (map snd snapshot_list))) mod int (length (map snd snapshot_list)))
           < length (map fst snapshot_list)"
    using nat_mod_less [OF pos] by (simp del: mod_add_self2)
qed

lemma lookup_action_absent:
  assumes "map_of sm (PStr section) = None
     \<or> (\<exists>d. map_of sm (PStr section) = Some (PDict d) \<and> map_of d (PStr key) = None)"
  shows "lookup_action (PDict sm) section key = Inr PNone"
  using assms by (auto simp: lookup_action_def)

text \<open>What the \<^verbatim>\<open>load:\<close> branch accepts beyond \<^verbatim>\<open>load:n\<close>.\<close>

lemma load_suffix_accepted:
  "try_action (PStr ''load:-3'') st = call_handler (Preset_set_and_change (- 3)) st"
  "try_action (PStr ''load:5:6'') st = call_handler (Preset_set_and_change 5) st"
  "try_action (PStr ''load: 7 '') st = call_handler (Preset_set_and_change 7) st"
  by (simp_all add: try_action_def startswith_def py_index_def int_of_str_def strip_def
      is_space_def parse_unsigned_def is_digit_def digit_val_def)

section \<open>Dispatch of a message\<close>

text \<open>
  C1. A control change is looked up under the logical channel, the wire channel plus one:
  when the only binding is \<open>cc[fmt_key c n] = "load:5"\<close>, a control-change message makes
  the handler call \<open>preset_set_and_change(5)\<close> exactly when its wire channel plus one
  is \<open>c\<close> and its controller is \<open>n\<close>; any other control change finds no binding and
  leaves the state as it was (no handler call). The key of logical channel 3 and
  controller 10 is \<open>"3:10"\<close>: wire channel 2 dispatches, wire channel 3 does not.
\<close>

theorem control_change_logical_channel:
  assumes "msg_type msg = ''control_change''"
    and "snapshot_map st = PDict [(PStr ''cc'', PDict [(PStr (fmt_key c n), PStr ''load:5'')])]"
  shows "fmt_key 3 10 = ''3:10'' \<and>
    (if channel msg + 1 = c \<and> control msg = n
     then handler_calls (snd (handle_midi_message msg st)) = handler_calls st @ [Preset_set_and_change 5]
     else handle_midi_message msg st = (None, st))"
proof (cases "channel msg + 1 = c \<and> control msg = n")
  case True
  with assms have "bound_action msg st = Some (Inr (PStr ''load:5''))"
    by (simp add: bound_action_def lookup_single)
  with True show ?thesis
    by (simp add: handle_midi_message_def try_action_load5 call_handler_def
        logging_error_def fmt_key_3_10 split: option.splits)
next
  case False
  with assms have "bound_action msg st = Some (Inr PNone)"
    by (auto simp: bound_action_def lookup_single fmt_key_inj)
  with False show ?thesis
    by (simp add: handle_midi_message_def fmt_key_3_10)
qed

theorem control_change_logical_channel_witness:
  "handler_calls (snd (handle_midi_message (cc_msg 2 10)
       (example_plugin (PDict [(PStr ''cc'', PDict [(PStr ''3:10'', PStr ''load:5'')])]))))
     = [Preset_set_and_change 5]
   \<and> handle_midi_message (cc_msg 3 10)
       (example_plugin (PDict [(PStr ''cc'', PDict [(PStr ''3:10'', PStr ''load:5'')])]))
     = (None, example_plugin (PDict [(PStr ''cc'', PDict [(PStr ''3:10'', PStr ''load:5'')])]))"
proof -
  let ?st = "example_plugin (PDict [(PStr ''cc'', PDict [(PStr ''3:10'', PStr ''load:5'')])])"
  have k: "fmt_key 3 10 = ''3:10''"
    by (simp add: fmt_key_def str_int_def str_nat.simps digit_char_def)
  have s: "snapshot_map ?st = PDict [(PStr ''cc'', PDict [(PStr (fmt_key 3 10), PStr ''load:5'')])]"
    by (simp add: example_plugin_def k)
  have t2: "msg_type (cc_msg 2 10) = ''control_change''" and t3: "msg_type (cc_msg 3 10) = ''control_change''"
    by (simp_all add: cc_msg_def)
  from control_change_logical_channel [OF t2 s] control_change_logical_channel [OF t3 s]
  show ?thesis by (simp add: cc_msg_def example_plugin_def)
qed



text \<open>
  C10. A bound action string that is not \<^verbatim>\<open>next\<close>, not \<^verbatim>\<open>previous\<close> and does not
  start with \<^verbatim>\<open>load:\<close> (such as \<^verbatim>\<open>stop\<close>) falls through the \<^verbatim>\<open>if\<close> chain:
  nothing is raised and the state is as it was, so no handler method was called and no
  log record was written.
\<close>

theorem unknown_action_ignored:
  assumes "bound_action msg st = Some (Inr (PStr a))"
    and "a \<noteq> ''next''" and "a \<noteq> ''previous''" and "\<not> startswith a ''load:''"
  shows "handle_midi_message msg st = (None, st)"
  using assms by (simp add: handle_midi_message_def try_action_def)

theorem unknown_action_ignored_witness:
  "handle_midi_message (cc_msg 0 21) (example_plugin example_map)
     = (None, example_plugin example_map)"
proof (rule unknown_action_ignored)
  show "bound_action (cc_msg 0 21) (example_plugin example_map) = Some (Inr (PStr ''stop''))"
    by (simp add: eval_simps)
qed (simp_all add: startswith_def)



section \<open>Snapshot navigation: next and previous\<close>

text \<open>
  C2. \<^verbatim>\<open>load_next_snapshot\<close> and \<^verbatim>\<open>load_previous_snapshot\<close> move by one position in
  the order of the inventory's values and wrap around: when the current name stands
  first at position \<open>k\<close>, they load the keys at positions \<open>(k + 1) mod count\<close> and
  \<open>(k - 1) mod count\<close> (where \<^verbatim>\<open>int\<close> accepts the key) and raise nothing. For the inventory \<open>{0: "A", 1: "B", 2: "C"}\<close>, next from "C"
  loads index 0 and previous from "A" loads index 2.
\<close>

theorem snapshot_navigation_wraps:
  assumes k: "k < length sl" and cur: "snd (sl ! k) = current_name"
    and first: "\<forall>j < k. snd (sl ! j) \<noteq> current_name"
  shows "(py_int (fst (sl ! ((k + 1) mod length sl))) = Inr i \<longrightarrow>
            fst (load_next_snapshot current_name sl st) = None
          \<and> modapi_calls (snd (load_next_snapshot current_name sl st)) = modapi_calls st @ [i])
    \<and> (py_int (fst (sl ! ((k + length sl - 1) mod length sl))) = Inr j \<longrightarrow>
            fst (load_previous_snapshot current_name sl st) = None
          \<and> modapi_calls (snd (load_previous_snapshot current_name sl st)) = modapi_calls st @ [j])"
proof -
  let ?n = "length sl"
  have mem: "current_name \<in> set (map snd sl)"
    using k cur by (metis length_map nth_map nth_mem)
  have idx: "index (map snd sl) current_name = k"
    using k cur first by (intro index_first) auto
  from k have pos: "0 < ?n" by (cases sl) simp_all
  have n1: "(k + 1) mod ?n < ?n" and n2: "(k + ?n - 1) mod ?n < ?n"
    using pos by (rule mod_less_divisor)+
  have pm: "nat ((int k - 1 + int ?n) mod int ?n) = (k + ?n - 1) mod ?n"
  proof -
    have "int k - 1 + int ?n = int (k + ?n - 1)" using k by simp
    then show ?thesis by (simp add: zmod_int [symmetric] del: of_nat_diff of_nat_add)
  qed
  have a: "fst (load_next_snapshot current_name sl st) = None
    \<and> modapi_calls (snd (load_next_snapshot current_name sl st)) = modapi_calls st @ [i]"
    if "py_int (fst (sl ! ((k + 1) mod length sl))) = Inr i"
    using mem idx n1 that
    by (simp add: load_next_snapshot_def Let_def load_snapshot_def logging_info_def)
  have b: "fst (load_previous_snapshot current_name sl st) = None
    \<and> modapi_calls (snd (load_previous_snapshot current_name sl st)) = modapi_calls st @ [j]"
    if "py_int (fst (sl ! ((k + length sl - 1) mod length sl))) = Inr j"
    using mem idx n2 that pm
    by (simp add: load_previous_snapshot_def Let_def load_snapshot_def logging_info_def)
  from a b show ?thesis by blast
qed

theorem snapshot_navigation_wraps_witness:
  "modapi_calls (snd (load_next_snapshot ''C'' example_inventory (example_plugin (PDict [])))) = [0]
   \<and> modapi_calls (snd (load_previous_snapshot ''A'' example_inventory (example_plugin (PDict [])))) = [2]
   \<and> fst (load_next_snapshot ''C'' example_inventory (example_plugin (PDict []))) = None
   \<and> fst (load_previous_snapshot ''A'' example_inventory (example_plugin (PDict []))) = None"
proof -
  let ?st = "example_plugin (PDict [])"
  have c2: "\<forall>j<2. snd (example_inventory ! j) \<noteq> ''C''"
    by (auto simp: example_inventory_def less_Suc_eq numeral_2_eq_2)
  have c: "fst (load_next_snapshot ''C'' example_inventory ?st) = None
    \<and> modapi_calls (snd (load_next_snapshot ''C'' example_inventory ?st)) = modapi_calls ?st @ [0]"
    using snapshot_navigation_wraps [where k = 2 and sl = example_inventory
        and current_name = "''C''" and i = 0 and st = ?st] c2
    by (simp add: example_inventory_def)
  have a: "fst (load_previous_snapshot ''A'' example_inventory ?st) = None
    \<and> modapi_calls (snd (load_previous_snapshot ''A'' example_inventory ?st)) = modapi_calls ?st @ [2]"
    using snapshot_navigation_wraps [where k = 0 and sl = example_inventory
        and current_name = "''A''" and j = 2 and st = ?st]
    by (simp add: example_inventory_def)
  from a c show ?thesis by (simp add: example_plugin_def)
qed

text \<open>
  C7. When the current snapshot name is not among the values of the inventory,
  \<^verbatim>\<open>load_next_snapshot\<close> and \<^verbatim>\<open>load_previous_snapshot\<close> do nothing: they raise
  nothing and leave the state as it was, so \<^verbatim>\<open>load_snapshot\<close> is not called.
\<close>

theorem unknown_current_name_noop:
  assumes "current_name \<notin> set (map snd snapshot_list)"
  shows "load_next_snapshot current_name snapshot_list st = (None, st)
    \<and> load_previous_snapshot current_name snapshot_list st = (None, st)"
  using assms by (simp add: load_next_snapshot_def load_previous_snapshot_def)

theorem unknown_current_name_noop_witness:
  "load_next_snapshot ''D'' example_inventory (example_plugin (PDict []))
     = (None, example_plugin (PDict []))
   \<and> load_previous_snapshot ''D'' example_inventory (example_plugin (PDict []))
     = (None, example_plugin (PDict []))"
  using unknown_current_name_noop [of "''D''" example_inventory "example_plugin (PDict [])"]
  by (simp add: example_inventory_def)

section \<open>The listener registry\<close>

lemma start_live: "live_entry st p \<Longrightarrow> start_listening_to_port p st = st"
  by (simp add: live_entry_def start_listening_to_port_def)

lemma start_not_live:
  "\<not> live_entry st p \<Longrightarrow> start_listening_to_port p st =
     st\<lparr>active_ports := (active_ports st)(p \<mapsto> length (threads st)),
        threads := threads st @ [(Listen_to_port p, True)],
        log_records := log_records st @ [(INFO, Listen_start p)]\<rparr>"
  by (simp add: live_entry_def start_listening_to_port_def thread_start_def logging_info_def)

lemma live_after_start: "live_entry (start_listening_to_port p st) p"
proof (cases "live_entry st p")
  case True
  then show ?thesis by (simp add: start_live)
next
  case False
  then show ?thesis by (simp add: start_not_live live_entry_def is_alive_def)
qed

lemma logging_frame [simp]:
  "active_ports (logging_info m st) = active_ports st"
  "threads (logging_info m st) = threads st"
  "running (logging_info m st) = running st"
  "active_ports (logging_warning m st) = active_ports st"
  "threads (logging_warning m st) = threads st"
  "running (logging_warning m st) = running st"
  "active_ports (logging_error m st) = active_ports st"
  "threads (logging_error m st) = threads st"
  "running (logging_error m st) = running st"
  by (simp_all add: logging_info_def logging_warning_def logging_error_def)

lemma call_handler_frame:
  "call_handler c st = (r, st') \<Longrightarrow>
     active_ports st' = active_ports st \<and> threads st' = threads st \<and> running st' = running st"
  by (auto simp: call_handler_def)

lemma try_action_frame:
  "try_action action st = (r, st') \<Longrightarrow>
     active_ports st' = active_ports st \<and> threads st' = threads st \<and> running st' = running st"
  unfolding try_action_def
  by (auto split: if_splits pyval.splits sum.splits dest: call_handler_frame)

lemma handle_midi_message_frame:
  assumes "handle_midi_message msg st = (r, st')"
  shows "active_ports st' = active_ports st \<and> threads st' = threads st \<and> running st' = running st"
proof (cases "bound_action msg st")
  case None
  with assms show ?thesis by (simp add: handle_midi_message_def)
next
  case (Some looked)
  show ?thesis
  proof (cases looked)
    case (Inl e)
    with Some assms show ?thesis by (simp add: handle_midi_message_def)
  next
    case (Inr action)
    show ?thesis
    proof (cases "py_bool action")
      case False
      with Some Inr assms show ?thesis by (simp add: handle_midi_message_def)
    next
      case True
      obtain r1 st1 where t: "try_action action st = (r1, st1)" by (cases "try_action action st")
      from try_action_frame [OF t] Some Inr True assms t show ?thesis
        by (cases r1) (auto simp: handle_midi_message_def)
    qed
  qed
qed

lemma read_loop_frame:
  "read_loop msgs err st = (r, st') \<Longrightarrow>
     active_ports st' = active_ports st \<and> threads st' = threads st \<and> running st' = running st"
proof (induction msgs arbitrary: st)
  case Nil
  then show ?case by simp
next
  case (Cons msg msgs)
  show ?case
  proof (cases "running st")
    case False
    with Cons.prems show ?thesis by simp
  next
    case True
    obtain r1 st1 where h: "handle_midi_message msg st = (r1, st1)"
      by (cases "handle_midi_message msg st")
    note f = handle_midi_message_frame [OF h]
    show ?thesis
    proof (cases r1)
      case None
      with Cons.prems True h have "read_loop msgs err st1 = (r, st')" by simp
      from Cons.IH [OF this] f show ?thesis by simp
    next
      case (Some e)
      with Cons.prems True h f show ?thesis by auto
    qed
  qed
qed

lemma listen_to_port_frame:
  "active_ports (listen_to_port p inp st) = active_ports st
   \<and> threads (listen_to_port p inp st) = threads st"
proof (cases inp)
  case (Open_failed e)
  then show ?thesis by (simp add: listen_to_port_def)
next
  case (Opened msgs err)
  obtain r st1 where rl: "read_loop msgs err (logging_info (Listening_on p) st) = (r, st1)"
    by (cases "read_loop msgs err (logging_info (Listening_on p) st)")
  from read_loop_frame [OF rl] Opened rl show ?thesis
    by (cases r) (simp_all add: listen_to_port_def)
qed

lemma thread_exit_frame [simp]:
  "active_ports (thread_exit t st) = active_ports st"
  "length (threads (thread_exit t st)) = length (threads st)"
  "\<not> is_alive t (thread_exit t st)"
  by (simp_all add: thread_exit_def is_alive_def)

lemma example_registered_eq:
  "example_registered = (example_plugin (PDict []))
     \<lparr>active_ports := [''dev'' \<mapsto> 2],
      threads := [(Listen_to_all_midi_ports, True), (Monitor_midi_devices, True),
                  (Listen_to_port ''dev'', True)],
      log_records := [(INFO, Listen_start ''dev'')]\<rparr>"
  by (simp add: example_registered_def listen_to_all_midi_ports_def example_plugin_def
      start_listening_to_port_def is_alive_def thread_start_def logging_info_def numeral_2_eq_2)

lemma example_dead_eq:
  "example_dead = (example_plugin (PDict []))
     \<lparr>active_ports := [''dev'' \<mapsto> 2],
      threads := [(Listen_to_all_midi_ports, True), (Monitor_midi_devices, True),
                  (Listen_to_port ''dev'', False)],
      log_records := [(INFO, Listen_start ''dev''),
                      (WARNING, Port_error ''dev'' (OtherError ''unknown port'')),
                      (INFO, Listen_stop ''dev'')]\<rparr>"
  by (simp add: example_dead_def example_registered_eq listener_thread_def listen_to_port_def
      thread_exit_def logging_info_def logging_warning_def example_plugin_def)

lemma is_alive_frame [simp]:
  "is_alive t (logging_info m st) = is_alive t st"
  "is_alive t (pop_port p st) = is_alive t st"
  by (simp_all add: is_alive_def pop_port_def)

lemma live_entry_logging [simp]: "live_entry (logging_info m st) p = live_entry st p"
  by (simp add: live_entry_def split: option.splits)

lemma dom_start [simp]:
  "dom (active_ports (start_listening_to_port p st)) = insert p (dom (active_ports st))"
proof (cases "live_entry st p")
  case True
  then have "p \<in> dom (active_ports st)"
    by (auto simp: live_entry_def split: option.splits)
  with True show ?thesis by (auto simp: start_live)
next
  case False
  then show ?thesis by (simp add: start_not_live)
qed





text \<open>
  C5. \<^verbatim>\<open>start_listening_to_port\<close> is idempotent on live listeners: a second call right
  after the first changes nothing, and after a call the port has one registered entry
  whose thread is alive. On a port whose entry is alive the call is a no-op; an entry
  whose thread has died is replaced by a newly started listener thread.
\<close>

theorem start_listening_idempotent:
  "start_listening_to_port p (start_listening_to_port p st) = start_listening_to_port p st
   \<and> (\<exists>t. active_ports (start_listening_to_port p st) p = Some t
          \<and> is_alive t (start_listening_to_port p st))
   \<and> (\<forall>t. active_ports st p = Some t \<and> is_alive t st \<longrightarrow> start_listening_to_port p st = st)
   \<and> (\<forall>t. active_ports st p = Some t \<and> \<not> is_alive t st \<longrightarrow>
         active_ports (start_listening_to_port p st) p = Some (length (threads st))
         \<and> threads (start_listening_to_port p st) = threads st @ [(Listen_to_port p, True)]
         \<and> is_alive (length (threads st)) (start_listening_to_port p st))"
proof -
  have 1: "start_listening_to_port p (start_listening_to_port p st) = start_listening_to_port p st"
    using live_after_start by (rule start_live)
  have 2: "\<exists>t. active_ports (start_listening_to_port p st) p = Some t
          \<and> is_alive t (start_listening_to_port p st)"
    using live_after_start [of p st] by (auto simp: live_entry_def split: option.splits)
  have 3: "start_listening_to_port p st = st" if "active_ports st p = Some t" "is_alive t st" for t
    using that by (simp add: start_live live_entry_def)
  have 4: "active_ports (start_listening_to_port p st) p = Some (length (threads st))
         \<and> threads (start_listening_to_port p st) = threads st @ [(Listen_to_port p, True)]
         \<and> is_alive (length (threads st)) (start_listening_to_port p st)"
    if "active_ports st p = Some t" "\<not> is_alive t st" for t
    using that by (simp add: start_not_live live_entry_def is_alive_def)
  from 1 2 3 4 show ?thesis by blast
qed

theorem start_listening_idempotent_witness:
  "start_listening_to_port ''dev'' (start_listening_to_port ''dev'' (example_plugin (PDict [])))
     = start_listening_to_port ''dev'' (example_plugin (PDict []))
   \<and> active_ports (start_listening_to_port ''dev'' (example_plugin (PDict []))) ''dev'' = Some 2
   \<and> start_listening_to_port ''dev'' example_registered = example_registered
   \<and> active_ports (start_listening_to_port ''dev'' example_dead) ''dev'' = Some 3
   \<and> is_alive 3 (start_listening_to_port ''dev'' example_dead)"
proof -
  have r: "active_ports example_registered ''dev'' = Some 2 \<and> is_alive 2 example_registered"
    by (simp add: example_registered_eq is_alive_def)
  have d: "active_ports example_dead ''dev'' = Some 2 \<and> \<not> is_alive 2 example_dead"
    by (simp add: example_dead_eq is_alive_def)
  have len: "length (threads example_dead) = 3"
    by (simp add: example_dead_eq)
  have n: "active_ports (start_listening_to_port ''dev'' (example_plugin (PDict []))) ''dev'' = Some 2"
    by (simp add: start_listening_to_port_def thread_start_def logging_info_def example_plugin_def)
  from start_listening_idempotent [of "''dev''" "example_plugin (PDict [])"]
    start_listening_idempotent [of "''dev''" example_registered]
    start_listening_idempotent [of "''dev''" example_dead] r d len n
  show ?thesis by simp
qed

text \<open>
  C3, as the code has it. A listener that exits (the open failed, the read raised or the
  loop ended) does not touch \<^verbatim>\<open>active_ports\<close>: its entry stays in the registry, now
  with a dead thread, and the next \<^verbatim>\<open>start_listening_to_port\<close> for that port
  replaces it by a new live listener. The counterexample is a listener whose open
  fails: its entry is still there afterwards.
\<close>

theorem listener_exit_keeps_entry:
  assumes "active_ports st p = Some t" and "t < length (threads st)"
  shows "active_ports (listener_thread t p inp st) = active_ports st
    \<and> \<not> is_alive t (listener_thread t p inp st)
    \<and> (\<exists>t'. active_ports (start_listening_to_port p (listener_thread t p inp st)) p = Some t'
           \<and> t' \<noteq> t
           \<and> is_alive t' (start_listening_to_port p (listener_thread t p inp st)))"
proof -
  let ?s = "listener_thread t p inp st"
  have ap: "active_ports ?s = active_ports st"
    by (simp add: listener_thread_def listen_to_port_frame)
  have dead: "\<not> is_alive t ?s"
    by (simp add: listener_thread_def)
  have len: "length (threads ?s) = length (threads st)"
    by (simp add: listener_thread_def listen_to_port_frame)
  from ap dead assms(1) have "\<not> live_entry ?s p"
    by (simp add: live_entry_def)
  then have "active_ports (start_listening_to_port p ?s) p = Some (length (threads ?s))"
    and "is_alive (length (threads ?s)) (start_listening_to_port p ?s)"
    by (simp_all add: start_not_live is_alive_def)
  with len assms(2) ap dead show ?thesis by auto
qed

theorem listener_exit_keeps_entry_witness:
  "active_ports (listener_thread 2 ''dev'' (Opened [cc_msg 0 1] None) example_registered) ''dev'' = Some 2
   \<and> \<not> is_alive 2 (listener_thread 2 ''dev'' (Opened [cc_msg 0 1] None) example_registered)
   \<and> active_ports (start_listening_to_port ''dev''
        (listener_thread 2 ''dev'' (Opened [cc_msg 0 1] None) example_registered)) ''dev'' = Some 3"
proof -
  let ?s = "listener_thread 2 ''dev'' (Opened [cc_msg 0 1] None) example_registered"
  have a: "active_ports example_registered ''dev'' = Some 2"
    and l: "2 < length (threads example_registered)"
    by (simp_all add: example_registered_eq example_plugin_def)
  from listener_exit_keeps_entry [OF a l, of "Opened [cc_msg 0 1] None"]
  have ap: "active_ports ?s = active_ports example_registered" and dead: "\<not> is_alive 2 ?s"
    by simp_all
  have len: "length (threads ?s) = 3"
    by (simp add: listener_thread_def listen_to_port_frame example_registered_eq example_plugin_def)
  from ap a dead have "\<not> live_entry ?s ''dev''" by (simp add: live_entry_def)
  then have "active_ports (start_listening_to_port ''dev'' ?s) ''dev'' = Some 3"
    by (simp add: start_not_live len)
  with ap a dead show ?thesis by simp
qed

theorem listener_exit_removes_entry_counterexample:
  "active_ports (listener_thread 2 ''dev'' (Open_failed (OtherError ''unknown port'')) example_registered)
     ''dev'' = Some 2
   \<and> \<not> is_alive 2 (listener_thread 2 ''dev'' (Open_failed (OtherError ''unknown port'')) example_registered)"
  by (simp add: example_registered_eq listener_thread_def listen_to_port_def thread_exit_def
      is_alive_def logging_info_def logging_warning_def example_plugin_def)




section \<open>Start without a configuration file\<close>

text \<open>
  C9. When the configuration file is not found, \<^verbatim>\<open>load_config\<close> logs a warning and
  returns an empty dictionary; construction succeeds with an empty \<^verbatim>\<open>snapshot_map\<close>,
  and \<^verbatim>\<open>register_plugin\<close> still sets \<^verbatim>\<open>running\<close> and starts the scan and monitor
  threads. No binding is active: every message is dropped.
\<close>

theorem no_config_file_starts_empty:
  "load_config (Inl FileNotFoundError) = (Inr (PDict []), [(WARNING, No_config_file)])
   \<and> init h (Inl FileNotFoundError) =
       Inr \<lparr>handler = h, handler_calls = [], modapi_calls = [], config = PDict [],
            snapshot_map = PDict [], verbose = PBool False, running = False,
            active_ports = Map.empty, threads = [],
            log_records = [(WARNING, No_config_file)]\<rparr>
   \<and> (case register_plugin h (Inl FileNotFoundError) of
         Inl e \<Rightarrow> False
       | Inr st \<Rightarrow>
           running st \<and> snapshot_map st = PDict [] \<and> active_ports st = Map.empty
           \<and> threads st = [(Listen_to_all_midi_ports, True), (Monitor_midi_devices, True)]
           \<and> (\<forall>msg. handle_midi_message msg st = (None, st)))"
proof -
  have 1: "load_config (Inl FileNotFoundError) = (Inr (PDict []), [(WARNING, No_config_file)])"
    by (simp add: load_config_def)
  have 2: "init h (Inl FileNotFoundError) =
       Inr \<lparr>handler = h, handler_calls = [], modapi_calls = [], config = PDict [],
            snapshot_map = PDict [], verbose = PBool False, running = False,
            active_ports = Map.empty, threads = [],
            log_records = [(WARNING, No_config_file)]\<rparr>"
    by (simp add: init_def 1)
  have 3: "register_plugin h (Inl FileNotFoundError) =
       Inr \<lparr>handler = h, handler_calls = [], modapi_calls = [], config = PDict [],
            snapshot_map = PDict [], verbose = PBool False, running = True,
            active_ports = Map.empty,
            threads = [(Listen_to_all_midi_ports, True), (Monitor_midi_devices, True)],
            log_records = [(WARNING, No_config_file), (INFO, Plugin_loaded)]\<rparr>"
    by (simp add: register_plugin_def 2 start_def thread_start_def logging_info_def)
  have 4: "handle_midi_message msg st = (None, st)" if "snapshot_map st = PDict []" for msg st
    using that by (simp add: handle_midi_message_def bound_action_def lookup_action_def)
  from 1 2 show ?thesis by (simp add: 3 4)
qed

end
